theory Spec2Isabelle
  imports Main
begin

section \<open>ExportSelectedLayersToShp: exporting the selected vector layers\<close>

text \<open>
  A shallow embedding of \<^verbatim>\<open>ExportSelectedLayersToShp.py\<close>. Python strings are
  \<^typ>\<open>string\<close>. What the script gets from its surroundings (the platform's \<^verbatim>\<open>os.path\<close>,
  the file system, the layer tree, the vector file writer) is a record of functions, the
  host; what it does to them is recorded in a trace of events.
\<close>

subsection \<open>Python string operations\<close>

datatype py_error =
    ValueError | IndexError
  | FileNotFoundError | FileExistsError | NotADirectoryError | PermissionError | OSError

text \<open>\<^verbatim>\<open>s.startswith(p)\<close>\<close>

definition startswith :: "string \<Rightarrow> string \<Rightarrow> bool" where
  "startswith s p = (take (length p) s = p)"

text \<open>\<^verbatim>\<open>s.endswith(p)\<close>\<close>

definition endswith :: "string \<Rightarrow> string \<Rightarrow> bool" where
  "endswith s p = (length p \<le> length s \<and> drop (length s - length p) s = p)"

text \<open>\<^verbatim>\<open>sub in s\<close>: some position of \<open>s\<close> starts an occurrence of \<open>sub\<close>.\<close>

fun contains :: "string \<Rightarrow> string \<Rightarrow> bool" where
  "contains sub [] = (sub = [])"
| "contains sub (c # cs) = (startswith (c # cs) sub \<or> contains sub cs)"

text \<open>
  \<^verbatim>\<open>s.split(sep)\<close> for a non-empty separator: the string is scanned from the left, each
  occurrence of the separator closes a piece and the scan goes on behind it. Python raises
  \<^verbatim>\<open>ValueError\<close> for the empty separator.
\<close>

fun split_go :: "string \<Rightarrow> string \<Rightarrow> string list" where
  "split_go sep [] = [[]]"
| "split_go sep (c # cs) =
     (if sep \<noteq> [] \<and> startswith (c # cs) sep
      then [] # split_go sep (drop (length sep) (c # cs))
      else (case split_go sep cs of
              [] \<Rightarrow> [[c]]
            | p # ps \<Rightarrow> (c # p) # ps))"

definition str_split :: "string \<Rightarrow> string \<Rightarrow> py_error + string list" where
  "str_split s sep = (if sep = [] then Inl ValueError else Inr (split_go sep s))"

text \<open>\<^verbatim>\<open>xs[-1]\<close>: the last element; \<^verbatim>\<open>IndexError\<close> on the empty list.\<close>

definition index_last :: "'a list \<Rightarrow> py_error + 'a" where
  "index_last xs = (if xs = [] then Inl IndexError else Inr (last xs))"

text \<open>
  \<^verbatim>\<open>s.rfind(sub)\<close>: the highest index at which \<open>sub\<close> occurs in \<open>s\<close>, or \<open>-1\<close>; the
  candidate positions are tried from the right end downwards.
\<close>

fun rfind_from :: "string \<Rightarrow> string \<Rightarrow> nat \<Rightarrow> int" where
  "rfind_from s sub 0 = (if startswith s sub then 0 else - 1)"
| "rfind_from s sub (Suc i) =
     (if startswith (drop (Suc i) s) sub then int (Suc i) else rfind_from s sub i)"

definition str_rfind :: "string \<Rightarrow> string \<Rightarrow> int" where
  "str_rfind s sub = rfind_from s sub (length s)"

subsection \<open>Layers\<close>

text \<open>
  A layer of the project, as far as the script reads it: \<^verbatim>\<open>layer.name()\<close>,
  \<^verbatim>\<open>layer.source()\<close>, \<^verbatim>\<open>layer.crs()\<close>, and the class that \<^verbatim>\<open>isinstance\<close> tests.
\<close>

datatype layer_class = QgsVectorLayer | QgsRasterLayer | QgsMeshLayer | QgsPluginLayer

type_synonym crs = string

record layer =
  lname :: string
  lsource :: string
  lcrs :: crs
  lclass :: layer_class

subsection \<open>The host\<close>

text \<open>
  The script calls \<^verbatim>\<open>os.path.basename\<close>, \<^verbatim>\<open>os.path.splitext\<close> and \<^verbatim>\<open>os.path.join\<close>.
  \<^verbatim>\<open>os.path\<close> is \<^verbatim>\<open>posixpath\<close> on one platform and \<^verbatim>\<open>ntpath\<close> on another, and the two
  disagree (on a backslash, on a drive letter), so the three functions are fields of the
  host and nothing is assumed about them. The file system is a value of a type the host
  chooses: \<^verbatim>\<open>os.path.exists\<close> reads it, \<^verbatim>\<open>os.makedirs\<close> returns a new one or raises, and
  \<^verbatim>\<open>QgsVectorFileWriter.writeAsVectorFormat\<close> returns its answer, a status and a message,
  together with a new one. \<^verbatim>\<open>iface.layerTreeView().selectedLayers()\<close> is the list of the
  selected layers.
\<close>

datatype writer_error =
    NoError | ErrDriverNotFound | ErrCreateDataSource | ErrCreateLayer
  | ErrAttributeTypeUnsupported | ErrAttributeCreationFailed | ErrProjection
  | ErrFeatureWriteFailed | ErrInvalidLayer | ErrSavingMetadata | Canceled

record 'fs host =
  os_path_basename :: "string \<Rightarrow> string"
  os_path_splitext :: "string \<Rightarrow> string \<times> string"
  os_path_join :: "string \<Rightarrow> string \<Rightarrow> string"
  os_path_exists :: "'fs \<Rightarrow> string \<Rightarrow> bool"
  os_makedirs :: "'fs \<Rightarrow> string \<Rightarrow> py_error + 'fs"
  selectedLayers :: "layer list"
  writeAsVectorFormat ::
    "'fs \<Rightarrow> layer \<Rightarrow> string \<Rightarrow> string \<Rightarrow> crs \<Rightarrow> string \<Rightarrow> (writer_error \<times> string) \<times> 'fs"

record parameters =
  OUTPUT_FOLDER :: string
  FILENAME_BASE :: int

subsection \<open>\<^verbatim>\<open>get_source_name\<close>\<close>

definition get_source_name :: "'fs host \<Rightarrow> layer \<Rightarrow> py_error + string" where
  "get_source_name h l =
     (let source = lsource l
      in if contains ''.gpkg|'' source
         then (case str_split source ''table='' of
                 Inl e \<Rightarrow> Inl e
               | Inr parts \<Rightarrow> index_last parts)
         else if startswith source ''/'' \<or> startswith source ''C:''
         then Inr (fst (os_path_splitext h (os_path_basename h source)))
         else Inr (lname l))"

text \<open>
  The name a layer is exported under (lines 93 to 98 of the script): the display name for
  option 0, the source name otherwise.
\<close>

definition filename_base :: "'fs host \<Rightarrow> int \<Rightarrow> layer \<Rightarrow> py_error + string" where
  "filename_base h filename_option l =
     (if filename_option = 0 then Inr (lname l) else get_source_name h l)"

subsection \<open>\<^verbatim>\<open>processAlgorithm\<close>\<close>

text \<open>
  What the script does is recorded in a trace, in the order in which it happens: calls of
  \<^verbatim>\<open>os.makedirs\<close> that returned, messages pushed to the feedback object, and calls of the
  writer with their five arguments. The state is the file system and the trace.
\<close>

datatype event =
    MakeDirs string
  | PushInfo string
  | PushWarning string
  | WriterCall layer string string crs string

record 'fs world =
  files :: 'fs
  trace :: "event list"

definition pushInfo :: "string \<Rightarrow> 'fs world \<Rightarrow> 'fs world" where
  "pushInfo m w = w\<lparr>trace := trace w @ [PushInfo m]\<rparr>"

definition pushWarning :: "string \<Rightarrow> 'fs world \<Rightarrow> 'fs world" where
  "pushWarning m w = w\<lparr>trace := trace w @ [PushWarning m]\<rparr>"

text \<open>The two signs of the messages, U+2705 and U+274C, as their UTF-8 bytes.\<close>

definition check_mark :: string where
  "check_mark = [CHR 0xE2, CHR 0x9C, CHR 0x85]"

definition cross_mark :: string where
  "cross_mark = [CHR 0xE2, CHR 0x9D, CHR 0x8C]"

text \<open>
  Lines 76 to 78: the output folder is created when it does not exist. An exception of
  \<^verbatim>\<open>os.makedirs\<close> is not caught.
\<close>

definition ensure_output_folder :: "'fs host \<Rightarrow> string \<Rightarrow> 'fs world \<Rightarrow> py_error + 'fs world" where
  "ensure_output_folder h output_folder w =
     (if \<not> os_path_exists h (files w) output_folder
      then (case os_makedirs h (files w) output_folder of
              Inl e \<Rightarrow> Inl e
            | Inr fs \<Rightarrow>
                Inr (pushInfo (''Output folder created: '' @ output_folder)
                       (w\<lparr>files := fs, trace := trace w @ [MakeDirs output_folder]\<rparr>)))
      else Inr w)"

text \<open>The list comprehension of lines 81 to 84.\<close>

definition selected_vector_layers :: "'fs host \<Rightarrow> layer list" where
  "selected_vector_layers h = filter (\<lambda>layer. lclass layer = QgsVectorLayer) (selectedLayers h)"

text \<open>The body of the export loop (lines 93 to 109), and the loop.\<close>

definition export_layer ::
  "'fs host \<Rightarrow> string \<Rightarrow> int \<Rightarrow> layer \<Rightarrow> 'fs world \<Rightarrow> py_error + 'fs world" where
  "export_layer h output_folder filename_option l w =
     (case filename_base h filename_option l of
        Inl e \<Rightarrow> Inl e
      | Inr base \<Rightarrow>
          (let output_filename = os_path_join h output_folder (base @ ''.shp'');
               (error, fs) = writeAsVectorFormat h (files w) l output_filename ''UTF-8'' (lcrs l)
                               ''ESRI Shapefile'';
               w1 = w\<lparr>files := fs, trace := trace w @
                      [WriterCall l output_filename ''UTF-8'' (lcrs l) ''ESRI Shapefile'']\<rparr>
           in if fst error = NoError
              then Inr (pushInfo (check_mark @ '' Layer '' @ lname l @ '' exported as ''
                                    @ output_filename) w1)
              else Inr (pushWarning (cross_mark @ '' Error exporting '' @ lname l @ '': ''
                                    @ snd error) w1)))"

fun export_loop ::
  "'fs host \<Rightarrow> string \<Rightarrow> int \<Rightarrow> layer list \<Rightarrow> 'fs world \<Rightarrow> py_error + 'fs world" where
  "export_loop h output_folder filename_option [] w = Inr w"
| "export_loop h output_folder filename_option (l # ls) w =
     (case export_layer h output_folder filename_option l w of
        Inl e \<Rightarrow> Inl e
      | Inr w' \<Rightarrow> export_loop h output_folder filename_option ls w')"

text \<open>
  Lines 59 to 111. The returned dictionary is a map from output names to values; the
  script returns \<^verbatim>\<open>{}\<close>.
\<close>

definition processAlgorithm ::
  "'fs host \<Rightarrow> parameters \<Rightarrow> 'fs world \<Rightarrow> py_error + ((string \<rightharpoonup> string) \<times> 'fs world)" where
  "processAlgorithm h ps w =
     (let output_folder = OUTPUT_FOLDER ps;
          filename_option = FILENAME_BASE ps
      in case ensure_output_folder h output_folder w of
           Inl e \<Rightarrow> Inl e
         | Inr w1 \<Rightarrow>
             (let selected_layers = selected_vector_layers h
              in if selected_layers = []
                 then Inr (Map.empty, pushWarning ''No vector layers selected for export.'' w1)
                 else (case export_loop h output_folder filename_option selected_layers w1 of
                         Inl e \<Rightarrow> Inl e
                       | Inr w2 \<Rightarrow> Inr (Map.empty, w2))))"

subsection \<open>The POSIX flavour of \<^verbatim>\<open>os.path\<close>\<close>

text \<open>
  One platform's \<^verbatim>\<open>os.path\<close>, for the example host below.
  \<^verbatim>\<open>posixpath.basename(p)\<close>: \<^verbatim>\<open>i = p.rfind('/') + 1; return p[i:]\<close>.
\<close>

definition posixpath_basename :: "string \<Rightarrow> string" where
  "posixpath_basename p = (let i = str_rfind p ''/'' + 1 in drop (nat i) p)"

text \<open>
  \<^verbatim>\<open>posixpath.splitext(p)\<close>, that is \<^verbatim>\<open>genericpath._splitext(p, '/', None, '.')\<close>:
  the extension starts at the last dot, provided that dot lies behind the last slash and
  some character between the two is not a dot. The inner \<^verbatim>\<open>while\<close> loop, which skips the
  leading dots of the file name, is \<open>posixpath_splitext_loop\<close>; \<open>None\<close> means that it ran
  to its end without returning.
\<close>

function posixpath_splitext_loop :: "string \<Rightarrow> nat \<Rightarrow> nat \<Rightarrow> (string \<times> string) option" where
  "posixpath_splitext_loop p filenameIndex dotIndex =
     (if filenameIndex < dotIndex
      then (if take 1 (drop filenameIndex p) \<noteq> ''.''
            then Some (take dotIndex p, drop dotIndex p)
            else posixpath_splitext_loop p (Suc filenameIndex) dotIndex)
      else None)"
  by pat_completeness auto
termination
  by (relation "measure (\<lambda>(p, filenameIndex, dotIndex). dotIndex - filenameIndex)") auto

declare posixpath_splitext_loop.simps [simp del]

definition posixpath_splitext :: "string \<Rightarrow> string \<times> string" where
  "posixpath_splitext p =
     (let sepIndex = str_rfind p ''/'';
          dotIndex = str_rfind p ''.''
      in if dotIndex > sepIndex
         then (case posixpath_splitext_loop p (nat (sepIndex + 1)) (nat dotIndex) of
                 Some r \<Rightarrow> r
               | None \<Rightarrow> (p, []))
         else (p, []))"

text \<open>
  \<^verbatim>\<open>posixpath.join(a, b)\<close> with two arguments: an absolute \<open>b\<close> replaces \<open>a\<close>; otherwise
  the two are put together with one slash between them unless \<open>a\<close> is empty or already ends
  in a slash.
\<close>

definition posixpath_join :: "string \<Rightarrow> string \<Rightarrow> string" where
  "posixpath_join a b =
     (if startswith b ''/'' then b
      else if a = [] \<or> endswith a ''/'' then a @ b
      else a @ ''/'' @ b)"

subsection \<open>Notions used to state the properties\<close>


text \<open>The writer calls of a trace, in order, and the layer of a call.\<close>

fun writer_calls :: "event list \<Rightarrow> (layer \<times> string \<times> string \<times> crs \<times> string) list" where
  "writer_calls [] = []"
| "writer_calls (WriterCall l f enc c drv # es) = (l, f, enc, c, drv) # writer_calls es"
| "writer_calls (e # es) = writer_calls es"

definition call_layer :: "layer \<times> string \<times> string \<times> crs \<times> string \<Rightarrow> layer" where
  "call_layer c = fst c"

text \<open>The feedback messages of a trace, in order.\<close>

fun feedback :: "event list \<Rightarrow> event list" where
  "feedback [] = []"
| "feedback (PushInfo m # es) = PushInfo m # feedback es"
| "feedback (PushWarning m # es) = PushWarning m # feedback es"
| "feedback (e # es) = feedback es"

text \<open>
  The base name of a POSIX path is what follows its last slash (the whole path when it has
  none). Stripping the extension removes the last dot of a name and what follows it; a name
  in which only dots come before the last dot has no extension, and neither has a name
  without a dot.
\<close>

definition path_base_name :: "string \<Rightarrow> string" where
  "path_base_name p = rev (takeWhile (\<lambda>c. c \<noteq> CHR ''/'') (rev p))"

definition strip_extension :: "string \<Rightarrow> string" where
  "strip_extension b =
     (let stem = rev (drop 1 (dropWhile (\<lambda>c. c \<noteq> CHR ''.'') (rev b)))
      in if CHR ''.'' \<in> set b \<and> (\<exists>c\<in>set stem. c \<noteq> CHR ''.'') then stem else b)"

text \<open>
  Exporting one layer: the base name \<open>filename_base\<close> computes, the output file, the call
  of the writer, what the writer returns on a file system, and the message that reports
  its answer.
\<close>

definition layer_base :: "'fs host \<Rightarrow> int \<Rightarrow> layer \<Rightarrow> string" where
  "layer_base h filename_option l =
     (case filename_base h filename_option l of Inl e \<Rightarrow> [] | Inr base \<Rightarrow> base)"

definition layer_path :: "'fs host \<Rightarrow> string \<Rightarrow> int \<Rightarrow> layer \<Rightarrow> string" where
  "layer_path h output_folder filename_option l =
     os_path_join h output_folder (layer_base h filename_option l @ ''.shp'')"

definition layer_call :: "'fs host \<Rightarrow> string \<Rightarrow> int \<Rightarrow> layer \<Rightarrow> event" where
  "layer_call h output_folder filename_option l =
     WriterCall l (layer_path h output_folder filename_option l) ''UTF-8'' (lcrs l)
       ''ESRI Shapefile''"

definition layer_result ::
  "'fs host \<Rightarrow> string \<Rightarrow> int \<Rightarrow> 'fs \<Rightarrow> layer \<Rightarrow> (writer_error \<times> string) \<times> 'fs" where
  "layer_result h output_folder filename_option fs l =
     writeAsVectorFormat h fs l (layer_path h output_folder filename_option l) ''UTF-8'' (lcrs l)
       ''ESRI Shapefile''"

definition layer_message :: "'fs host \<Rightarrow> string \<Rightarrow> int \<Rightarrow> 'fs \<Rightarrow> layer \<Rightarrow> event" where
  "layer_message h output_folder filename_option fs l =
     (let output_filename = layer_path h output_folder filename_option l;
          error = fst (layer_result h output_folder filename_option fs l)
      in if fst error = NoError
         then PushInfo (check_mark @ '' Layer '' @ lname l @ '' exported as '' @ output_filename)
         else PushWarning (cross_mark @ '' Error exporting '' @ lname l @ '': '' @ snd error))"

text \<open>
  The events of exporting a list of layers from a file system, and the file system that
  is left.
\<close>

fun loop_events :: "'fs host \<Rightarrow> string \<Rightarrow> int \<Rightarrow> 'fs \<Rightarrow> layer list \<Rightarrow> event list" where
  "loop_events h output_folder filename_option fs [] = []"
| "loop_events h output_folder filename_option fs (l # ls) =
     layer_call h output_folder filename_option l #
     layer_message h output_folder filename_option fs l #
     loop_events h output_folder filename_option
       (snd (layer_result h output_folder filename_option fs l)) ls"

fun loop_files :: "'fs host \<Rightarrow> string \<Rightarrow> int \<Rightarrow> 'fs \<Rightarrow> layer list \<Rightarrow> 'fs" where
  "loop_files h output_folder filename_option fs [] = fs"
| "loop_files h output_folder filename_option fs (l # ls) =
     loop_files h output_folder filename_option
       (snd (layer_result h output_folder filename_option fs l)) ls"

text \<open>
  The events of lines 80 to 111 (the selection, the warning when it holds no vector layer,
  the loop), and the file system they leave.
\<close>

definition selected_events :: "'fs host \<Rightarrow> string \<Rightarrow> int \<Rightarrow> 'fs \<Rightarrow> event list" where
  "selected_events h output_folder filename_option fs =
     (if selected_vector_layers h = []
      then [PushWarning ''No vector layers selected for export.'']
      else loop_events h output_folder filename_option fs (selected_vector_layers h))"

definition selected_files :: "'fs host \<Rightarrow> string \<Rightarrow> int \<Rightarrow> 'fs \<Rightarrow> 'fs" where
  "selected_files h output_folder filename_option fs =
     loop_files h output_folder filename_option fs (selected_vector_layers h)"

subsection \<open>An example session\<close>

text \<open>
  A host on a POSIX platform. Its file system is the set of the path names that exist.
  \<^verbatim>\<open>os.makedirs\<close> raises \<^verbatim>\<open>FileNotFoundError\<close> on the empty path,
  \<^verbatim>\<open>FileExistsError\<close> on a path that exists, and \<^verbatim>\<open>PermissionError\<close> below
  \<^verbatim>\<open>/root\<close>, where the user may not write. Three layers are selected, one of them a
  raster layer; the writer fails on the layer called Rivers.
\<close>

definition roads :: layer where
  "roads = \<lparr>lname = ''Main roads'', lsource = ''/data/osm.gpkg|table=roads'',
            lcrs = ''EPSG:4326'', lclass = QgsVectorLayer\<rparr>"

definition relief :: layer where
  "relief = \<lparr>lname = ''Relief'', lsource = ''/data/relief.tif'',
             lcrs = ''EPSG:4326'', lclass = QgsRasterLayer\<rparr>"

definition rivers :: layer where
  "rivers = \<lparr>lname = ''Rivers'', lsource = ''/data/rivers.v2.shp'',
             lcrs = ''EPSG:3857'', lclass = QgsVectorLayer\<rparr>"

definition example_exists :: "string set \<Rightarrow> string \<Rightarrow> bool" where
  "example_exists fs p = (p \<in> fs)"

definition example_makedirs :: "string set \<Rightarrow> string \<Rightarrow> py_error + string set" where
  "example_makedirs fs p =
     (if p = [] then Inl FileNotFoundError
      else if p \<in> fs then Inl FileExistsError
      else if startswith p ''/root/'' then Inl PermissionError
      else Inr (insert p fs))"

definition example_writer ::
  "string set \<Rightarrow> layer \<Rightarrow> string \<Rightarrow> string \<Rightarrow> crs \<Rightarrow> string \<Rightarrow> (writer_error \<times> string) \<times> string set" where
  "example_writer fs l f enc c drv =
     (if lname l = ''Rivers'' then ((ErrCreateDataSource, ''cannot create file''), fs)
      else ((NoError, []), insert f fs))"

definition example_host :: "string set host" where
  "example_host =
     \<lparr>os_path_basename = posixpath_basename, os_path_splitext = posixpath_splitext,
      os_path_join = posixpath_join, os_path_exists = example_exists,
      os_makedirs = example_makedirs, selectedLayers = [roads, relief, rivers],
      writeAsVectorFormat = example_writer\<rparr>"

definition raster_host :: "string set host" where
  "raster_host = example_host\<lparr>selectedLayers := [relief]\<rparr>"

definition example_parameters :: parameters where
  "example_parameters = \<lparr>OUTPUT_FOLDER = ''/out'', FILENAME_BASE = 1\<rparr>"

definition protected_parameters :: parameters where
  "protected_parameters = \<lparr>OUTPUT_FOLDER = ''/root/exports'', FILENAME_BASE = 1\<rparr>"

definition empty_world :: "string set world" where
  "empty_world = \<lparr>files = {}, trace = []\<rparr>"

definition out_world :: "string set world" where
  "out_world = \<lparr>files = {''/out''}, trace = []\<rparr>"

definition example_loop_trace :: "event list" where
  "example_loop_trace =
     [WriterCall roads ''/out/roads.shp'' ''UTF-8'' ''EPSG:4326'' ''ESRI Shapefile'',
      PushInfo (check_mark @ '' Layer Main roads exported as /out/roads.shp''),
      WriterCall rivers ''/out/rivers.v2.shp'' ''UTF-8'' ''EPSG:3857'' ''ESRI Shapefile'',
      PushWarning (cross_mark @ '' Error exporting Rivers: cannot create file'')]"

definition example_trace :: "event list" where
  "example_trace =
     MakeDirs ''/out'' # PushInfo ''Output folder created: /out'' # example_loop_trace"

section \<open>Properties\<close>

subsection \<open>Splitting never fails\<close>

lemma split_go_not_Nil: "split_go sep s \<noteq> []"
  by (induction sep s rule: split_go.induct) (auto split: list.splits)

lemma split_go_no_occurrence: "\<not> contains sep s \<Longrightarrow> split_go sep s = [s]"
  by (induction s) auto

lemma get_source_name_total: "\<exists>n. get_source_name h l = Inr n"
  by (simp add: get_source_name_def Let_def str_split_def index_last_def split_go_not_Nil)

lemma filename_base_total: "\<exists>n. filename_base h opt l = Inr n"
  using get_source_name_total[of h l] by (simp add: filename_base_def)

subsection \<open>Occurrences of a substring\<close>


lemma rfind_from_none:
  "(\<forall>j\<le>n. \<not> startswith (drop j s) sub) \<Longrightarrow> rfind_from s sub n = - 1"
  by (induction n) auto

lemma rfind_from_found:
  "i \<le> n \<Longrightarrow> startswith (drop i s) sub \<Longrightarrow> (\<forall>j. i < j \<and> j \<le> n \<longrightarrow> \<not> startswith (drop j s) sub)
   \<Longrightarrow> rfind_from s sub n = int i"
proof (induction n)
  case 0
  then show ?case by simp
next
  case (Suc n)
  show ?case
  proof (cases "i = Suc n")
    case True
    with Suc.prems show ?thesis by simp
  next
    case False
    with Suc.prems have "i \<le> n" "\<not> startswith (drop (Suc n) s) sub" by auto
    with Suc show ?thesis by simp
  qed
qed


subsection \<open>The last piece of a split\<close>






subsection \<open>Base name and extension\<close>

lemma startswith_char: "startswith (drop j s) [c] \<longleftrightarrow> j < length s \<and> s ! j = c"
proof (cases "j < length s")
  case True
  then have "drop j s = s ! j # drop (Suc j) s" by (simp add: Cons_nth_drop_Suc)
  then show ?thesis using True by (simp add: startswith_def)
next
  case False
  then show ?thesis by (simp add: startswith_def)
qed

lemma str_rfind_char_none:
  assumes "c \<notin> set b"
  shows "str_rfind b [c] = - 1"
  unfolding str_rfind_def
proof (rule rfind_from_none, intro allI impI)
  fix j assume "j \<le> length b"
  show "\<not> startswith (drop j b) [c]"
  proof
    assume "startswith (drop j b) [c]"
    then have "j < length b" "b ! j = c" unfolding startswith_char by blast+
    then have "c \<in> set b" using nth_mem by blast
    with assms show False by blast
  qed
qed

lemma nth_behind: "(stem @ [c] @ ext) ! (Suc (length stem) + m) = ext ! m"
  by (simp add: nth_append)

lemma str_rfind_char_last:
  assumes "c \<notin> set ext"
  shows "str_rfind (stem @ [c] @ ext) [c] = int (length stem)"
  unfolding str_rfind_def
proof (rule rfind_from_found)
  show "length stem \<le> length (stem @ [c] @ ext)" by simp
  show "startswith (drop (length stem) (stem @ [c] @ ext)) [c]"
    unfolding startswith_char by simp
  show "\<forall>j. length stem < j \<and> j \<le> length (stem @ [c] @ ext) \<longrightarrow>
          \<not> startswith (drop j (stem @ [c] @ ext)) [c]"
  proof (intro allI impI notI)
    fix j
    assume j: "length stem < j \<and> j \<le> length (stem @ [c] @ ext)"
      and "startswith (drop j (stem @ [c] @ ext)) [c]"
    then have lt: "j < length (stem @ [c] @ ext)" and eq: "(stem @ [c] @ ext) ! j = c"
      unfolding startswith_char by blast+
    from j have "Suc (length stem) \<le> j" by simp
    then obtain m where m: "j = Suc (length stem) + m" using le_Suc_ex by blast
    have "m < length ext" using lt unfolding m by simp
    moreover have "ext ! m = c" using eq unfolding m nth_behind .
    ultimately have "c \<in> set ext" using nth_mem by blast
    with assms show False by blast
  qed
qed

lemma last_char_decomp:
  assumes "c \<in> set b"
  shows "\<exists>ext. b = rev (drop 1 (dropWhile (\<lambda>x. x \<noteq> c) (rev b))) @ [c] @ ext \<and> c \<notin> set ext
           \<and> ext = rev (takeWhile (\<lambda>x. x \<noteq> c) (rev b))"
proof -
  define tw where "tw = takeWhile (\<lambda>x. x \<noteq> c) (rev b)"
  define dw where "dw = dropWhile (\<lambda>x. x \<noteq> c) (rev b)"
  have split: "rev b = tw @ dw" unfolding tw_def dw_def by simp
  have ne: "dw \<noteq> []" unfolding dw_def using assms by simp
  have "hd dw = c"
    using ne hd_dropWhile[of "\<lambda>x. x \<noteq> c" "rev b"] unfolding dw_def by blast
  with ne obtain rest where dwc: "dw = c # rest" by (cases dw) auto
  have notin: "c \<notin> set tw"
    unfolding tw_def using set_takeWhileD[of c "\<lambda>x. x \<noteq> c" "rev b"] by blast
  have "rev (rev b) = rev (tw @ dw)" using split by (rule arg_cong)
  then have b: "b = rev rest @ [c] @ rev tw" unfolding dwc by simp
  have rest: "drop 1 dw = rest" unfolding dwc by simp
  have "b = rev (drop 1 dw) @ [c] @ rev tw \<and> c \<notin> set (rev tw)"
    unfolding rest using b notin by simp
  then show ?thesis unfolding tw_def dw_def by blast
qed

lemma posixpath_basename_path_base_name: "posixpath_basename p = path_base_name p \<and> CHR ''/'' \<notin> set (posixpath_basename p)"
proof (cases "CHR ''/'' \<in> set p")
  case False
  then have "str_rfind p ''/'' = - 1" by (rule str_rfind_char_none)
  then have "posixpath_basename p = p" by (simp add: posixpath_basename_def)
  moreover have "\<forall>x\<in>set (rev p). x \<noteq> CHR ''/''" using False by auto
  then have "takeWhile (\<lambda>c. c \<noteq> CHR ''/'') (rev p) = rev p"
    by (rule takeWhile_eq_all_conv[THEN iffD2])
  then have "rev (takeWhile (\<lambda>c. c \<noteq> CHR ''/'') (rev p)) = rev (rev p)"
    by (rule arg_cong)
  then have "path_base_name p = p" unfolding path_base_name_def by (simp only: rev_rev_ident)
  ultimately show ?thesis using False by simp
next
  case True
  define ext where "ext = path_base_name p"
  from last_char_decomp[OF True] obtain stem where
    d: "p = stem @ ''/'' @ ext" "CHR ''/'' \<notin> set ext"
    unfolding path_base_name_def ext_def by blast
  have "str_rfind (stem @ ''/'' @ ext) ''/'' = int (length stem)"
    using d(2) by (rule str_rfind_char_last)
  then have "posixpath_basename (stem @ ''/'' @ ext) = ext" by (simp add: posixpath_basename_def nat_add_distrib)
  then have "posixpath_basename p = ext" unfolding d(1)[symmetric] .
  with d(2) show ?thesis unfolding ext_def by simp
qed

lemma take1_drop: "k < length b \<Longrightarrow> take 1 (drop k b) = [b ! k]"
  by (simp add: Cons_nth_drop_Suc[symmetric])

lemma posixpath_splitext_loop_found:
  "fi \<le> k \<Longrightarrow> k < di \<Longrightarrow> take 1 (drop k p) \<noteq> ''.'' \<Longrightarrow>
   posixpath_splitext_loop p fi di = Some (take di p, drop di p)"
proof (induction p fi di rule: posixpath_splitext_loop.induct)
  case (1 p fi di)
  show ?case
  proof (cases "take 1 (drop fi p) \<noteq> ''.''")
    case True
    with "1.prems" show ?thesis by (subst posixpath_splitext_loop.simps) simp
  next
    case False
    with "1.prems" have "fi \<noteq> k" by auto
    with "1.prems" have "Suc fi \<le> k" "fi < di" by simp_all
    with "1.IH" False "1.prems" have "posixpath_splitext_loop p (Suc fi) di = Some (take di p, drop di p)"
      by simp
    with False \<open>fi < di\<close> show ?thesis by (subst posixpath_splitext_loop.simps) simp
  qed
qed

lemma posixpath_splitext_loop_none:
  "(\<forall>k. fi \<le> k \<and> k < di \<longrightarrow> take 1 (drop k p) = ''.'') \<Longrightarrow> posixpath_splitext_loop p fi di = None"
proof (induction p fi di rule: posixpath_splitext_loop.induct)
  case (1 p fi di)
  show ?case
  proof (cases "fi < di")
    case True
    with "1.prems" have "take 1 (drop fi p) = ''.''" by simp
    moreover from "1.IH" True this "1.prems" have "posixpath_splitext_loop p (Suc fi) di = None" by simp
    ultimately show ?thesis using True by (subst posixpath_splitext_loop.simps) simp
  next
    case False
    then show ?thesis by (subst posixpath_splitext_loop.simps) simp
  qed
qed

lemma nth_stem: "k < length stem \<Longrightarrow> (stem @ rest) ! k = stem ! k"
  by (simp add: nth_append)

lemma posixpath_splitext_no_slash:
  assumes "str_rfind b ''/'' = - 1" "str_rfind b ''.'' = int n"
  shows "posixpath_splitext b = (case posixpath_splitext_loop b 0 n of Some r \<Rightarrow> r | None \<Rightarrow> (b, []))"
  using assms by (simp add: posixpath_splitext_def)

lemma posixpath_splitext_strip_extension:
  assumes "CHR ''/'' \<notin> set b"
  shows "fst (posixpath_splitext b) = strip_extension b"
proof -
  have sep: "str_rfind b ''/'' = - 1" using assms by (rule str_rfind_char_none)
  show ?thesis
  proof (cases "CHR ''.'' \<in> set b")
    case False
    then have "str_rfind b ''.'' = - 1" by (rule str_rfind_char_none)
    with sep False show ?thesis by (simp add: posixpath_splitext_def strip_extension_def)
  next
    case True
    define stem where "stem = rev (drop 1 (dropWhile (\<lambda>x. x \<noteq> CHR ''.'') (rev b)))"
    from last_char_decomp[OF True] obtain ext where
      d: "b = stem @ ''.'' @ ext" "CHR ''.'' \<notin> set ext"
      unfolding stem_def by blast
    have "str_rfind (stem @ ''.'' @ ext) ''.'' = int (length stem)"
      using d(2) by (rule str_rfind_char_last)
    then have dot: "str_rfind b ''.'' = int (length stem)" unfolding d(1)[symmetric] .
    have "take (length stem) (stem @ ''.'' @ ext) = stem" by simp
    then have tk: "take (length stem) b = stem" unfolding d(1)[symmetric] .
    have se: "strip_extension b =
        (if CHR ''.'' \<in> set b \<and> (\<exists>c\<in>set stem. c \<noteq> CHR ''.'') then stem else b)"
      by (simp only: strip_extension_def stem_def Let_def)
    have nth: "\<And>k. k < length stem \<Longrightarrow> take 1 (drop k b) = [stem ! k]"
    proof -
      fix k assume k: "k < length stem"
      have "(stem @ ''.'' @ ext) ! k = stem ! k" using k by (rule nth_stem)
      then have "b ! k = stem ! k" unfolding d(1)[symmetric] .
      moreover have "k < length (stem @ ''.'' @ ext)" using k by simp
      then have "k < length b" unfolding d(1)[symmetric] .
      ultimately show "take 1 (drop k b) = [stem ! k]" using take1_drop[of k b] by simp
    qed
    have sx: "posixpath_splitext b = (case posixpath_splitext_loop b 0 (length stem) of Some r \<Rightarrow> r | None \<Rightarrow> (b, []))"
      using sep dot by (rule posixpath_splitext_no_slash)
    show ?thesis
    proof (cases "\<exists>c\<in>set stem. c \<noteq> CHR ''.''")
      case True
      then obtain c where c: "c \<in> set stem" "c \<noteq> CHR ''.''" by blast
      from c(1) obtain k where "k < length stem" "stem ! k = c"
        unfolding in_set_conv_nth by blast
      with c(2) have k: "k < length stem" "stem ! k \<noteq> CHR ''.''" by simp_all
      have "take 1 (drop k b) \<noteq> ''.''" using nth[OF k(1)] k(2) by simp
      then have "posixpath_splitext_loop b 0 (length stem) = Some (take (length stem) b, drop (length stem) b)"
        using k(1) by (intro posixpath_splitext_loop_found[of 0 k]) simp_all
      then have "fst (posixpath_splitext b) = stem" unfolding sx tk by simp
      moreover have "strip_extension b = stem"
        unfolding se using True \<open>CHR ''.'' \<in> set b\<close> by simp
      ultimately show ?thesis by simp
    next
      case False
      have "\<forall>k. 0 \<le> k \<and> k < length stem \<longrightarrow> take 1 (drop k b) = ''.''"
      proof (intro allI impI)
        fix k assume k: "0 \<le> k \<and> k < length stem"
        then have "stem ! k \<in> set stem" using nth_mem by blast
        then have "stem ! k = CHR ''.''" using False by blast
        then show "take 1 (drop k b) = ''.''" using nth[of k] k by simp
      qed
      then have "posixpath_splitext_loop b 0 (length stem) = None" by (rule posixpath_splitext_loop_none)
      then have "fst (posixpath_splitext b) = b" unfolding sx by simp
      moreover have "strip_extension b = b"
        unfolding se using False by simp
      ultimately show ?thesis by simp
    qed
  qed
qed

subsection \<open>The source name\<close>




text \<open>
  C2: a layer whose source is the file path \<^verbatim>\<open>D:/data/roads.shp\<close> and whose display name
  is Main roads. The source does not contain \<^verbatim>\<open>.gpkg|\<close>; it starts neither with \<^verbatim>\<open>/\<close>
  nor with \<^verbatim>\<open>C:\<close>, so on every host \<open>get_source_name\<close> reaches its last line and returns
  the display name, not the base name \<^verbatim>\<open>roads\<close> of the file.
\<close>

theorem get_source_name_other_drive:
  "\<not> contains ''.gpkg|'' ''D:/data/roads.shp'' \<and>
   get_source_name h \<lparr>lname = ''Main roads'', lsource = ''D:/data/roads.shp'',
     lcrs = ''EPSG:4326'', lclass = QgsVectorLayer\<rparr> = Inr ''Main roads''"
  by (simp add: get_source_name_def startswith_def)

text \<open>
  C7, as amended: \<open>get_source_name\<close> is a function of the source string and the display
  name of the layer, and of nothing else. Two layers with the same source get the same base
  name when the source contains \<^verbatim>\<open>.gpkg|\<close> or starts with \<^verbatim>\<open>/\<close> or \<^verbatim>\<open>C:\<close>, or when
  their display names agree as well. The claim as stated fails in the fall-back case, where
  the result is the display name: two layers with one source and two names get two results.
\<close>

theorem get_source_name_same_source:
  "lsource l1 = lsource l2 \<Longrightarrow>
   contains ''.gpkg|'' (lsource l1) \<or> startswith (lsource l1) ''/'' \<or>
     startswith (lsource l1) ''C:'' \<or> lname l1 = lname l2 \<Longrightarrow>
   get_source_name h l1 = get_source_name h l2"
  by (auto simp: get_source_name_def Let_def)

theorem get_source_name_same_source_witness:
  "get_source_name example_host
     \<lparr>lname = ''Roads 2020'', lsource = ''/data/roads.shp'',
      lcrs = ''EPSG:4326'', lclass = QgsVectorLayer\<rparr> =
   get_source_name example_host
     \<lparr>lname = ''Roads (copy)'', lsource = ''/data/roads.shp'',
      lcrs = ''EPSG:3857'', lclass = QgsVectorLayer\<rparr>"
  using get_source_name_same_source
    [of "\<lparr>lname = ''Roads 2020'', lsource = ''/data/roads.shp'',
          lcrs = ''EPSG:4326'', lclass = QgsVectorLayer\<rparr>"
        "\<lparr>lname = ''Roads (copy)'', lsource = ''/data/roads.shp'',
          lcrs = ''EPSG:3857'', lclass = QgsVectorLayer\<rparr>" example_host]
  by (simp add: startswith_def)

theorem get_source_name_same_source_counterexample:
  "lsource \<lparr>lname = ''Wells'', lsource = ''Point?crs=EPSG:4326'',
     lcrs = ''EPSG:4326'', lclass = QgsVectorLayer\<rparr> =
   lsource \<lparr>lname = ''Springs'', lsource = ''Point?crs=EPSG:4326'',
     lcrs = ''EPSG:4326'', lclass = QgsVectorLayer\<rparr> \<and>
   get_source_name example_host
     \<lparr>lname = ''Wells'', lsource = ''Point?crs=EPSG:4326'',
      lcrs = ''EPSG:4326'', lclass = QgsVectorLayer\<rparr> = Inr ''Wells'' \<and>
   get_source_name example_host
     \<lparr>lname = ''Springs'', lsource = ''Point?crs=EPSG:4326'',
      lcrs = ''EPSG:4326'', lclass = QgsVectorLayer\<rparr> = Inr ''Springs''"
  by (simp add: get_source_name_def startswith_def)

text \<open>
  C9: a layer whose source neither contains \<^verbatim>\<open>.gpkg|\<close> nor starts with \<^verbatim>\<open>/\<close> or
  \<^verbatim>\<open>C:\<close> gets its display name from \<open>get_source_name\<close>.
\<close>

theorem get_source_name_fallback:
  "\<not> contains ''.gpkg|'' (lsource l) \<Longrightarrow> \<not> startswith (lsource l) ''/'' \<Longrightarrow>
   \<not> startswith (lsource l) ''C:'' \<Longrightarrow> get_source_name h l = Inr (lname l)"
  by (simp add: get_source_name_def)

theorem get_source_name_fallback_witness:
  "\<not> contains ''.gpkg|'' ''Point?crs=EPSG:4326'' \<and> \<not> startswith ''Point?crs=EPSG:4326'' ''/'' \<and>
   \<not> startswith ''Point?crs=EPSG:4326'' ''C:'' \<and>
   get_source_name example_host
     \<lparr>lname = ''Scratch points'', lsource = ''Point?crs=EPSG:4326'',
      lcrs = ''EPSG:4326'', lclass = QgsVectorLayer\<rparr> = Inr ''Scratch points''"
  using get_source_name_fallback
    [of "\<lparr>lname = ''Scratch points'', lsource = ''Point?crs=EPSG:4326'',
          lcrs = ''EPSG:4326'', lclass = QgsVectorLayer\<rparr>" example_host]
  by (simp add: startswith_def)

text \<open>
  C10: a layer whose source contains \<^verbatim>\<open>.gpkg|\<close> but no \<^verbatim>\<open>table=\<close> gets its whole
  source string, unchanged, from \<open>get_source_name\<close>.
\<close>

theorem get_source_name_gpkg_without_table:
  "contains ''.gpkg|'' (lsource l) \<Longrightarrow> \<not> contains ''table='' (lsource l) \<Longrightarrow>
   get_source_name h l = Inr (lsource l)"
  by (simp add: get_source_name_def str_split_def index_last_def split_go_no_occurrence)

theorem get_source_name_gpkg_without_table_witness:
  "contains ''.gpkg|'' ''/d/a.gpkg|layername=roads'' \<and>
   \<not> contains ''table='' ''/d/a.gpkg|layername=roads'' \<and>
   get_source_name example_host
     \<lparr>lname = ''Roads'', lsource = ''/d/a.gpkg|layername=roads'',
      lcrs = ''EPSG:4326'', lclass = QgsVectorLayer\<rparr> = Inr ''/d/a.gpkg|layername=roads''"
  using get_source_name_gpkg_without_table
    [of "\<lparr>lname = ''Roads'', lsource = ''/d/a.gpkg|layername=roads'',
          lcrs = ''EPSG:4326'', lclass = QgsVectorLayer\<rparr>" example_host]
  by (simp add: startswith_def)

subsection \<open>The events of a run\<close>

lemma filename_base_layer_base: "filename_base h opt l = Inr (layer_base h opt l)"
  using filename_base_total[of h opt l] by (auto simp: layer_base_def)

lemma layer_path_base:
  "\<exists>base. (if opt = 0 then Inr (lname l) else get_source_name h l) = Inr base \<and>
          layer_path h f opt l = os_path_join h f (base @ ''.shp'')"
  using filename_base_layer_base[of h opt l]
  by (simp add: layer_path_def filename_base_def)

lemma export_layer_events:
  "export_layer h f opt l w =
     Inr (w\<lparr>files := snd (layer_result h f opt (files w) l),
            trace := trace w @ [layer_call h f opt l, layer_message h f opt (files w) l]\<rparr>)"
  by (simp add: export_layer_def filename_base_layer_base Let_def layer_call_def
      layer_message_def layer_result_def layer_path_def pushInfo_def pushWarning_def
      case_prod_beta)

lemma export_loop_events:
  "export_loop h f opt ls w =
     Inr (w\<lparr>files := loop_files h f opt (files w) ls,
            trace := trace w @ loop_events h f opt (files w) ls\<rparr>)"
  by (induction ls arbitrary: w) (simp_all add: export_layer_events)

lemma writer_calls_append: "writer_calls (xs @ ys) = writer_calls xs @ writer_calls ys"
  by (induction xs rule: writer_calls.induct) simp_all

lemma writer_calls_loop_events:
  "writer_calls (loop_events h f opt fs ls) =
     map (\<lambda>l. (l, layer_path h f opt l, ''UTF-8'', lcrs l, ''ESRI Shapefile'')) ls"
  by (induction ls arbitrary: fs) (simp_all add: layer_call_def layer_message_def Let_def)

lemma feedback_layer_message:
  "feedback (layer_call h f opt l # layer_message h f opt fs l # es) =
     layer_message h f opt fs l # feedback es"
  by (simp add: layer_call_def layer_message_def Let_def)

lemma feedback_loop_events_length: "length (feedback (loop_events h f opt fs ls)) = length ls"
  by (induction ls arbitrary: fs) (simp_all add: feedback_layer_message)

lemma feedback_loop_events_nth:
  "i < length ls \<Longrightarrow>
   feedback (loop_events h f opt fs ls) ! i =
     layer_message h f opt (loop_files h f opt fs (take i ls)) (ls ! i)"
proof (induction ls arbitrary: fs i)
  case Nil
  then show ?case by simp
next
  case (Cons l ls)
  show ?case
  proof (cases i)
    case 0
    then show ?thesis by (simp add: feedback_layer_message)
  next
    case (Suc j)
    with Cons.prems have "j < length ls" by simp
    from Cons.IH[OF this, of "snd (layer_result h f opt fs l)"] Suc
    show ?thesis by (simp add: feedback_layer_message)
  qed
qed

lemma layer_message_base:
  "\<exists>base. (if opt = 0 then Inr (lname l) else get_source_name h l) = Inr base \<and>
     layer_message h f opt fs l =
       (let output_filename = os_path_join h f (base @ ''.shp'');
            error = fst (writeAsVectorFormat h fs l output_filename ''UTF-8'' (lcrs l)
                           ''ESRI Shapefile'')
        in if fst error = NoError
           then PushInfo (check_mark @ '' Layer '' @ lname l @ '' exported as '' @ output_filename)
           else PushWarning (cross_mark @ '' Error exporting '' @ lname l @ '': '' @ snd error))"
proof -
  from layer_path_base[of opt l h f] obtain base where
    b: "(if opt = 0 then Inr (lname l) else get_source_name h l) = Inr base"
      "layer_path h f opt l = os_path_join h f (base @ ''.shp'')"
    by blast
  have "layer_message h f opt fs l =
       (let output_filename = os_path_join h f (base @ ''.shp'');
            error = fst (writeAsVectorFormat h fs l output_filename ''UTF-8'' (lcrs l)
                           ''ESRI Shapefile'')
        in if fst error = NoError
           then PushInfo (check_mark @ '' Layer '' @ lname l @ '' exported as '' @ output_filename)
           else PushWarning (cross_mark @ '' Error exporting '' @ lname l @ '': '' @ snd error))"
    by (simp add: layer_message_def layer_result_def b(2) Let_def)
  with b(1) show ?thesis by blast
qed

lemma loop_events_cases:
  "e \<in> set (loop_events h f opt fs ls) \<Longrightarrow>
   \<exists>l fs'. e = layer_call h f opt l \<or> e = layer_message h f opt fs' l"
  by (induction ls arbitrary: fs) auto

lemma layer_message_not_created:
  "layer_message h f opt fs l = PushInfo m \<Longrightarrow> \<not> startswith m ''Output folder created: ''"
  by (auto simp: layer_message_def Let_def check_mark_def startswith_def split: if_splits)

lemma loop_events_no_creation:
  assumes "e \<in> set (loop_events h f opt fs ls)"
  shows "(\<forall>p. e \<noteq> MakeDirs p) \<and>
         (\<forall>m. e = PushInfo m \<longrightarrow> \<not> startswith m ''Output folder created: '')"
proof -
  from loop_events_cases[OF assms] obtain l fs' where
    "e = layer_call h f opt l \<or> e = layer_message h f opt fs' l" by blast
  then show ?thesis
  proof
    assume "e = layer_call h f opt l"
    then show ?thesis by (simp add: layer_call_def)
  next
    assume e: "e = layer_message h f opt fs' l"
    have "\<forall>p. layer_message h f opt fs' l \<noteq> MakeDirs p"
      by (simp add: layer_message_def Let_def)
    moreover have "\<forall>m. layer_message h f opt fs' l = PushInfo m \<longrightarrow>
        \<not> startswith m ''Output folder created: ''"
      using layer_message_not_created[of h f opt fs' l] by blast
    ultimately show ?thesis unfolding e by blast
  qed
qed

lemma selected_events_no_creation:
  assumes "e \<in> set (selected_events h f opt fs)"
  shows "(\<forall>p. e \<noteq> MakeDirs p) \<and>
         (\<forall>m. e = PushInfo m \<longrightarrow> \<not> startswith m ''Output folder created: '')"
proof (cases "selected_vector_layers h = []")
  case True
  with assms show ?thesis by (simp add: selected_events_def)
next
  case False
  with assms have "e \<in> set (loop_events h f opt fs (selected_vector_layers h))"
    by (simp add: selected_events_def)
  then show ?thesis by (rule loop_events_no_creation)
qed

lemma writer_calls_selected_events:
  "writer_calls (selected_events h f opt fs) =
     map (\<lambda>l. (l, layer_path h f opt l, ''UTF-8'', lcrs l, ''ESRI Shapefile''))
       (selected_vector_layers h)"
  by (simp add: selected_events_def writer_calls_loop_events)

lemma ensure_output_folder_exists:
  "os_path_exists h (files w) f \<Longrightarrow> ensure_output_folder h f w = Inr w"
  by (simp add: ensure_output_folder_def)

lemma ensure_output_folder_created:
  "\<not> os_path_exists h (files w) f \<Longrightarrow> os_makedirs h (files w) f = Inr fs \<Longrightarrow>
   ensure_output_folder h f w =
     Inr (w\<lparr>files := fs,
            trace := trace w @ [MakeDirs f, PushInfo (''Output folder created: '' @ f)]\<rparr>)"
  by (simp add: ensure_output_folder_def pushInfo_def)

lemma ensure_output_folder_raises:
  "\<not> os_path_exists h (files w) f \<Longrightarrow> os_makedirs h (files w) f = Inl e \<Longrightarrow>
   ensure_output_folder h f w = Inl e"
  by (simp add: ensure_output_folder_def)

lemma processAlgorithm_exists:
  "os_path_exists h (files w) (OUTPUT_FOLDER ps) \<Longrightarrow>
   processAlgorithm h ps w =
     Inr (Map.empty,
          w\<lparr>files := selected_files h (OUTPUT_FOLDER ps) (FILENAME_BASE ps) (files w),
            trace := trace w @
              selected_events h (OUTPUT_FOLDER ps) (FILENAME_BASE ps) (files w)\<rparr>)"
  by (simp add: processAlgorithm_def Let_def ensure_output_folder_exists export_loop_events
      selected_events_def selected_files_def pushWarning_def)

lemma processAlgorithm_created:
  "\<not> os_path_exists h (files w) (OUTPUT_FOLDER ps) \<Longrightarrow>
   os_makedirs h (files w) (OUTPUT_FOLDER ps) = Inr fs \<Longrightarrow>
   processAlgorithm h ps w =
     Inr (Map.empty,
          w\<lparr>files := selected_files h (OUTPUT_FOLDER ps) (FILENAME_BASE ps) fs,
            trace := trace w @
              MakeDirs (OUTPUT_FOLDER ps) #
              PushInfo (''Output folder created: '' @ OUTPUT_FOLDER ps) #
              selected_events h (OUTPUT_FOLDER ps) (FILENAME_BASE ps) fs\<rparr>)"
  by (simp add: processAlgorithm_def Let_def ensure_output_folder_created export_loop_events
      selected_events_def selected_files_def pushWarning_def)

lemma processAlgorithm_raises:
  "\<not> os_path_exists h (files w) (OUTPUT_FOLDER ps) \<Longrightarrow>
   os_makedirs h (files w) (OUTPUT_FOLDER ps) = Inl e \<Longrightarrow>
   processAlgorithm h ps w = Inl e"
  by (simp add: processAlgorithm_def Let_def ensure_output_folder_raises)

lemma processAlgorithm_returns:
  assumes "os_path_exists h (files w) (OUTPUT_FOLDER ps) \<or>
           (\<exists>fs. os_makedirs h (files w) (OUTPUT_FOLDER ps) = Inr fs)"
  shows "\<exists>w' evs. processAlgorithm h ps w = Inr (Map.empty, w') \<and> trace w' = trace w @ evs \<and>
     writer_calls evs =
       map (\<lambda>l. (l, layer_path h (OUTPUT_FOLDER ps) (FILENAME_BASE ps) l, ''UTF-8'', lcrs l,
                 ''ESRI Shapefile''))
         (selected_vector_layers h)"
proof (cases "os_path_exists h (files w) (OUTPUT_FOLDER ps)")
  case True
  let ?evs = "selected_events h (OUTPUT_FOLDER ps) (FILENAME_BASE ps) (files w)"
  let ?w' = "w\<lparr>files := selected_files h (OUTPUT_FOLDER ps) (FILENAME_BASE ps) (files w),
               trace := trace w @ ?evs\<rparr>"
  have a: "processAlgorithm h ps w = Inr (Map.empty, ?w')"
    using True by (rule processAlgorithm_exists)
  have b: "trace ?w' = trace w @ ?evs" by simp
  have c: "writer_calls ?evs =
       map (\<lambda>l. (l, layer_path h (OUTPUT_FOLDER ps) (FILENAME_BASE ps) l, ''UTF-8'', lcrs l,
                 ''ESRI Shapefile''))
         (selected_vector_layers h)"
    by (rule writer_calls_selected_events)
  from a b c show ?thesis by blast
next
  case False
  with assms obtain fs where fs: "os_makedirs h (files w) (OUTPUT_FOLDER ps) = Inr fs"
    by blast
  let ?evs = "MakeDirs (OUTPUT_FOLDER ps) #
              PushInfo (''Output folder created: '' @ OUTPUT_FOLDER ps) #
              selected_events h (OUTPUT_FOLDER ps) (FILENAME_BASE ps) fs"
  let ?w' = "w\<lparr>files := selected_files h (OUTPUT_FOLDER ps) (FILENAME_BASE ps) fs,
               trace := trace w @ ?evs\<rparr>"
  have a: "processAlgorithm h ps w = Inr (Map.empty, ?w')"
    using False fs by (rule processAlgorithm_created)
  have b: "trace ?w' = trace w @ ?evs" by simp
  have c: "writer_calls ?evs =
       map (\<lambda>l. (l, layer_path h (OUTPUT_FOLDER ps) (FILENAME_BASE ps) l, ''UTF-8'', lcrs l,
                 ''ESRI Shapefile''))
         (selected_vector_layers h)"
    by (simp add: writer_calls_selected_events)
  from a b c show ?thesis by blast
qed

subsection \<open>The example session\<close>

lemma example_names:
  "get_source_name example_host roads = Inr ''roads''"
  "get_source_name example_host rivers = Inr ''rivers.v2''"
  by (simp_all add: roads_def rivers_def example_host_def get_source_name_def str_split_def
      index_last_def startswith_def posixpath_basename_path_base_name
      posixpath_splitext_strip_extension path_base_name_def strip_extension_def)

lemma example_evaluation:
  "selected_vector_layers example_host = [roads, rivers]"
  "layer_call example_host ''/out'' 1 roads =
     WriterCall roads ''/out/roads.shp'' ''UTF-8'' ''EPSG:4326'' ''ESRI Shapefile''"
  "layer_message example_host ''/out'' 1 fs roads =
     PushInfo (check_mark @ '' Layer Main roads exported as /out/roads.shp'')"
  "snd (layer_result example_host ''/out'' 1 fs roads) = insert ''/out/roads.shp'' fs"
  "layer_call example_host ''/out'' 1 rivers =
     WriterCall rivers ''/out/rivers.v2.shp'' ''UTF-8'' ''EPSG:3857'' ''ESRI Shapefile''"
  "layer_message example_host ''/out'' 1 fs rivers =
     PushWarning (cross_mark @ '' Error exporting Rivers: cannot create file'')"
  "snd (layer_result example_host ''/out'' 1 fs rivers) = fs"
  by (simp_all add: example_host_def selected_vector_layers_def
      roads_def relief_def rivers_def layer_call_def layer_message_def layer_result_def
      layer_path_def layer_base_def filename_base_def example_writer_def
      get_source_name_def str_split_def index_last_def startswith_def endswith_def
      posixpath_join_def posixpath_basename_path_base_name posixpath_splitext_strip_extension
      path_base_name_def strip_extension_def)

lemma example_folder:
  "\<not> os_path_exists example_host (files empty_world) (OUTPUT_FOLDER example_parameters)"
  "os_makedirs example_host (files empty_world) (OUTPUT_FOLDER example_parameters) =
     Inr {''/out''}"
  "os_path_exists example_host (files out_world) (OUTPUT_FOLDER example_parameters)"
  "\<not> os_path_exists example_host (files empty_world) (OUTPUT_FOLDER protected_parameters)"
  "os_makedirs example_host (files empty_world) (OUTPUT_FOLDER protected_parameters) =
     Inl PermissionError"
  by (simp_all add: example_host_def example_exists_def example_makedirs_def
      example_parameters_def protected_parameters_def empty_world_def out_world_def
      startswith_def)

lemma raster_folder:
  "\<not> os_path_exists raster_host (files empty_world) (OUTPUT_FOLDER example_parameters)"
  "os_makedirs raster_host (files empty_world) (OUTPUT_FOLDER example_parameters) =
     Inr {''/out''}"
  "\<not> os_path_exists raster_host (files empty_world) (OUTPUT_FOLDER protected_parameters)"
  "os_makedirs raster_host (files empty_world) (OUTPUT_FOLDER protected_parameters) =
     Inl PermissionError"
  "filter (\<lambda>layer. lclass layer = QgsVectorLayer) (selectedLayers raster_host) = []"
  by (simp_all add: raster_host_def example_host_def example_exists_def example_makedirs_def
      example_parameters_def protected_parameters_def empty_world_def relief_def
      startswith_def)

lemma example_loop_run:
  "export_loop example_host ''/out'' 1 [roads, rivers] out_world =
     Inr \<lparr>files = {''/out/roads.shp'', ''/out''}, trace = example_loop_trace\<rparr>"
  by (simp add: export_loop_events example_evaluation out_world_def example_loop_trace_def)

lemma example_run:
  "processAlgorithm example_host example_parameters empty_world =
     Inr (Map.empty, \<lparr>files = {''/out/roads.shp'', ''/out''}, trace = example_trace\<rparr>)"
  using processAlgorithm_created[OF example_folder(1) example_folder(2)]
  by (simp add: selected_events_def selected_files_def example_evaluation
      example_parameters_def empty_world_def example_trace_def example_loop_trace_def)

lemma example_run_again:
  "processAlgorithm example_host example_parameters out_world =
     Inr (Map.empty, \<lparr>files = {''/out/roads.shp'', ''/out''}, trace = example_loop_trace\<rparr>)"
  using processAlgorithm_exists[OF example_folder(3)]
  by (simp add: selected_events_def selected_files_def example_evaluation
      example_parameters_def out_world_def example_loop_trace_def)

lemma example_protected_run:
  "processAlgorithm example_host protected_parameters empty_world = Inl PermissionError"
  using example_folder(4) example_folder(5) by (rule processAlgorithm_raises)

lemma raster_run:
  "processAlgorithm raster_host example_parameters empty_world =
     Inr (Map.empty, \<lparr>files = {''/out''},
       trace = [MakeDirs ''/out'', PushInfo ''Output folder created: /out'',
                PushWarning ''No vector layers selected for export.'']\<rparr>)"
  using processAlgorithm_created[OF raster_folder(1) raster_folder(2)]
  by (simp add: selected_events_def selected_files_def selected_vector_layers_def
      raster_folder(5) example_parameters_def empty_world_def)

lemma raster_protected_run:
  "processAlgorithm raster_host protected_parameters empty_world = Inl PermissionError"
  using raster_folder(3) raster_folder(4) by (rule processAlgorithm_raises)

lemma processAlgorithm_cases:
  "(\<exists>e. \<not> os_path_exists h (files w) (OUTPUT_FOLDER ps) \<and>
        os_makedirs h (files w) (OUTPUT_FOLDER ps) = Inl e \<and>
        processAlgorithm h ps w = Inl e) \<or>
   (\<exists>w' evs. processAlgorithm h ps w = Inr (Map.empty, w') \<and> trace w' = trace w @ evs \<and>
      writer_calls evs =
        map (\<lambda>l. (l, layer_path h (OUTPUT_FOLDER ps) (FILENAME_BASE ps) l, ''UTF-8'', lcrs l,
                  ''ESRI Shapefile''))
          (selected_vector_layers h))"
proof (cases "os_path_exists h (files w) (OUTPUT_FOLDER ps)")
  case True
  then have "os_path_exists h (files w) (OUTPUT_FOLDER ps) \<or>
      (\<exists>fs. os_makedirs h (files w) (OUTPUT_FOLDER ps) = Inr fs)" by blast
  from processAlgorithm_returns[OF this] show ?thesis by blast
next
  case False
  show ?thesis
  proof (cases "os_makedirs h (files w) (OUTPUT_FOLDER ps)")
    case (Inl e)
    with False have "processAlgorithm h ps w = Inl e" by (rule processAlgorithm_raises)
    with False Inl show ?thesis by blast
  next
    case (Inr fs)
    then have "os_path_exists h (files w) (OUTPUT_FOLDER ps) \<or>
        (\<exists>fs. os_makedirs h (files w) (OUTPUT_FOLDER ps) = Inr fs)" by blast
    from processAlgorithm_returns[OF this] show ?thesis by blast
  qed
qed

lemma call_layer_mapped:
  "map call_layer (map (\<lambda>l. (l, g l, ''UTF-8'', lcrs l, ''ESRI Shapefile'')) ls) = ls"
  by (simp add: call_layer_def comp_def)

subsection \<open>The writer calls of a run\<close>

text \<open>
  C3, as amended: when the output folder exists, or \<^verbatim>\<open>os.makedirs\<close> creates it without
  raising, \<open>processAlgorithm\<close> returns \<^verbatim>\<open>{}\<close> and the writer calls it makes are, in order,
  one call for each selected vector layer; the output path of a call is the output folder
  joined with the base name and \<^verbatim>\<open>.shp\<close>, where the base name is the display name of the
  layer for option 0 and its source name otherwise. The claim as stated fails when
  \<^verbatim>\<open>os.makedirs\<close> raises, as it does for a folder the user may not create:
  \<open>processAlgorithm\<close> ends with the exception, which is raised before the selection is
  read, although two vector layers are selected.
\<close>

theorem processAlgorithm_writer_calls:
  assumes "os_path_exists h (files w) (OUTPUT_FOLDER ps) \<or>
           (\<exists>fs. os_makedirs h (files w) (OUTPUT_FOLDER ps) = Inr fs)"
  shows "\<exists>w' evs. processAlgorithm h ps w = Inr (Map.empty, w') \<and> trace w' = trace w @ evs \<and>
     map call_layer (writer_calls evs) = selected_vector_layers h \<and>
     (\<forall>c\<in>set (writer_calls evs). \<exists>base.
        (if FILENAME_BASE ps = 0 then Inr (lname (call_layer c))
         else get_source_name h (call_layer c)) = Inr base \<and>
        c = (call_layer c, os_path_join h (OUTPUT_FOLDER ps) (base @ ''.shp''), ''UTF-8'',
             lcrs (call_layer c), ''ESRI Shapefile''))"
proof -
  from processAlgorithm_returns[OF assms] obtain w' evs where
    a: "processAlgorithm h ps w = Inr (Map.empty, w')" and
    b: "trace w' = trace w @ evs" and
    wc: "writer_calls evs =
       map (\<lambda>l. (l, layer_path h (OUTPUT_FOLDER ps) (FILENAME_BASE ps) l, ''UTF-8'', lcrs l,
                 ''ESRI Shapefile''))
         (selected_vector_layers h)"
    by blast
  have c: "map call_layer (writer_calls evs) = selected_vector_layers h"
    unfolding wc by (rule call_layer_mapped)
  have d: "\<forall>c\<in>set (writer_calls evs). \<exists>base.
        (if FILENAME_BASE ps = 0 then Inr (lname (call_layer c))
         else get_source_name h (call_layer c)) = Inr base \<and>
        c = (call_layer c, os_path_join h (OUTPUT_FOLDER ps) (base @ ''.shp''), ''UTF-8'',
             lcrs (call_layer c), ''ESRI Shapefile'')"
  proof
    fix c assume "c \<in> set (writer_calls evs)"
    then obtain l where c: "c = (l, layer_path h (OUTPUT_FOLDER ps) (FILENAME_BASE ps) l,
        ''UTF-8'', lcrs l, ''ESRI Shapefile'')"
      unfolding wc by auto
    from layer_path_base[of "FILENAME_BASE ps" l h "OUTPUT_FOLDER ps"] obtain base where
      "(if FILENAME_BASE ps = 0 then Inr (lname l) else get_source_name h l) = Inr base"
      "layer_path h (OUTPUT_FOLDER ps) (FILENAME_BASE ps) l =
         os_path_join h (OUTPUT_FOLDER ps) (base @ ''.shp'')"
      by blast
    then show "\<exists>base.
        (if FILENAME_BASE ps = 0 then Inr (lname (call_layer c))
         else get_source_name h (call_layer c)) = Inr base \<and>
        c = (call_layer c, os_path_join h (OUTPUT_FOLDER ps) (base @ ''.shp''), ''UTF-8'',
             lcrs (call_layer c), ''ESRI Shapefile'')"
      unfolding c call_layer_def by (intro exI[of _ base]) (auto split: if_splits)
  qed
  from a b c d show ?thesis by blast
qed

theorem processAlgorithm_writer_calls_witness:
  "os_path_exists example_host (files out_world) (OUTPUT_FOLDER example_parameters) \<and>
   processAlgorithm example_host example_parameters out_world =
     Inr (Map.empty, \<lparr>files = {''/out/roads.shp'', ''/out''}, trace = example_loop_trace\<rparr>) \<and>
   selected_vector_layers example_host = [roads, rivers] \<and>
   map call_layer (writer_calls example_loop_trace) = [roads, rivers] \<and>
   get_source_name example_host roads = Inr ''roads'' \<and>
   get_source_name example_host rivers = Inr ''rivers.v2'' \<and>
   writer_calls example_loop_trace =
     [(roads, ''/out/roads.shp'', ''UTF-8'', ''EPSG:4326'', ''ESRI Shapefile''),
      (rivers, ''/out/rivers.v2.shp'', ''UTF-8'', ''EPSG:3857'', ''ESRI Shapefile'')]"
proof -
  have a: "os_path_exists example_host (files out_world) (OUTPUT_FOLDER example_parameters)"
    by (rule example_folder(3))
  then have "os_path_exists example_host (files out_world) (OUTPUT_FOLDER example_parameters) \<or>
      (\<exists>fs. os_makedirs example_host (files out_world) (OUTPUT_FOLDER example_parameters) = Inr fs)"
    by blast
  from processAlgorithm_writer_calls[OF this] obtain w' evs where
    r: "processAlgorithm example_host example_parameters out_world = Inr (Map.empty, w')" and
    t: "trace w' = trace out_world @ evs" and
    l: "map call_layer (writer_calls evs) = selected_vector_layers example_host"
    by blast
  from r have "w' = \<lparr>files = {''/out/roads.shp'', ''/out''}, trace = example_loop_trace\<rparr>"
    unfolding example_run_again by simp
  with t have "evs = example_loop_trace" by (simp add: out_world_def)
  with l have b: "map call_layer (writer_calls example_loop_trace) = [roads, rivers]"
    by (simp add: example_evaluation(1))
  have c: "writer_calls example_loop_trace =
     [(roads, ''/out/roads.shp'', ''UTF-8'', ''EPSG:4326'', ''ESRI Shapefile''),
      (rivers, ''/out/rivers.v2.shp'', ''UTF-8'', ''EPSG:3857'', ''ESRI Shapefile'')]"
    by (simp add: example_loop_trace_def)
  from a example_run_again example_evaluation(1) b example_names c
  show ?thesis by (intro conjI)
qed

theorem processAlgorithm_writer_calls_counterexample:
  "selected_vector_layers example_host = [roads, rivers] \<and>
   \<not> os_path_exists example_host (files empty_world) (OUTPUT_FOLDER protected_parameters) \<and>
   os_makedirs example_host (files empty_world) (OUTPUT_FOLDER protected_parameters) =
     Inl PermissionError \<and>
   processAlgorithm example_host protected_parameters empty_world = Inl PermissionError"
  using example_evaluation(1) example_folder(4) example_folder(5) example_protected_run
  by (intro conjI)

text \<open>
  C4: only vector layers are exported. Whenever \<open>processAlgorithm\<close> returns, the layers of
  its writer calls are, in order, the selected layers that are vector layers, and every
  writer call is for a selected layer that is a vector layer. It does not return only
  when \<^verbatim>\<open>os.makedirs\<close> raised, which is before the selection is read.
\<close>

theorem processAlgorithm_only_vector_layers:
  "case processAlgorithm h ps w of
     Inl e \<Rightarrow>
       \<not> os_path_exists h (files w) (OUTPUT_FOLDER ps) \<and>
       os_makedirs h (files w) (OUTPUT_FOLDER ps) = Inl e
   | Inr (r, w') \<Rightarrow>
       \<exists>evs. trace w' = trace w @ evs \<and>
         map call_layer (writer_calls evs) =
           filter (\<lambda>layer. lclass layer = QgsVectorLayer) (selectedLayers h) \<and>
         (\<forall>c\<in>set (writer_calls evs).
            call_layer c \<in> set (selectedLayers h) \<and> lclass (call_layer c) = QgsVectorLayer)"
proof -
  from processAlgorithm_cases[of h w ps] show ?thesis
  proof
    assume "\<exists>e. \<not> os_path_exists h (files w) (OUTPUT_FOLDER ps) \<and>
        os_makedirs h (files w) (OUTPUT_FOLDER ps) = Inl e \<and>
        processAlgorithm h ps w = Inl e"
    then show ?thesis by auto
  next
    assume "\<exists>w' evs. processAlgorithm h ps w = Inr (Map.empty, w') \<and> trace w' = trace w @ evs \<and>
      writer_calls evs =
        map (\<lambda>l. (l, layer_path h (OUTPUT_FOLDER ps) (FILENAME_BASE ps) l, ''UTF-8'', lcrs l,
                  ''ESRI Shapefile''))
          (selected_vector_layers h)"
    then obtain w' evs where
      a: "processAlgorithm h ps w = Inr (Map.empty, w')" and
      b: "trace w' = trace w @ evs" and
      wc: "writer_calls evs =
        map (\<lambda>l. (l, layer_path h (OUTPUT_FOLDER ps) (FILENAME_BASE ps) l, ''UTF-8'', lcrs l,
                  ''ESRI Shapefile''))
          (selected_vector_layers h)"
      by blast
    have "map call_layer (writer_calls evs) = selected_vector_layers h"
      unfolding wc by (rule call_layer_mapped)
    then have c: "map call_layer (writer_calls evs) =
        filter (\<lambda>layer. lclass layer = QgsVectorLayer) (selectedLayers h)"
      by (simp add: selected_vector_layers_def)
    have d: "\<forall>c\<in>set (writer_calls evs).
        call_layer c \<in> set (selectedLayers h) \<and> lclass (call_layer c) = QgsVectorLayer"
    proof
      fix c assume "c \<in> set (writer_calls evs)"
      then have "call_layer c \<in> set (map call_layer (writer_calls evs))" by simp
      then have "call_layer c \<in>
          set (filter (\<lambda>layer. lclass layer = QgsVectorLayer) (selectedLayers h))"
        unfolding c .
      then show "call_layer c \<in> set (selectedLayers h) \<and> lclass (call_layer c) = QgsVectorLayer"
        by simp
    qed
    from b c d have "\<exists>evs. trace w' = trace w @ evs \<and>
         map call_layer (writer_calls evs) =
           filter (\<lambda>layer. lclass layer = QgsVectorLayer) (selectedLayers h) \<and>
         (\<forall>c\<in>set (writer_calls evs).
            call_layer c \<in> set (selectedLayers h) \<and> lclass (call_layer c) = QgsVectorLayer)"
      by blast
    then show ?thesis unfolding a by simp
  qed
qed

theorem processAlgorithm_only_vector_layers_witness:
  "selectedLayers example_host = [roads, relief, rivers] \<and>
   lclass roads = QgsVectorLayer \<and> lclass relief = QgsRasterLayer \<and>
   lclass rivers = QgsVectorLayer \<and>
   processAlgorithm example_host example_parameters empty_world =
     Inr (Map.empty, \<lparr>files = {''/out/roads.shp'', ''/out''}, trace = example_trace\<rparr>) \<and>
   map call_layer (writer_calls example_trace) = [roads, rivers]"
proof -
  have a: "selectedLayers example_host = [roads, relief, rivers]"
    "lclass roads = QgsVectorLayer" "lclass relief = QgsRasterLayer"
    "lclass rivers = QgsVectorLayer"
    by (simp_all add: example_host_def roads_def relief_def rivers_def)
  have "case processAlgorithm example_host example_parameters empty_world of
     Inl e \<Rightarrow>
       \<not> os_path_exists example_host (files empty_world) (OUTPUT_FOLDER example_parameters) \<and>
       os_makedirs example_host (files empty_world) (OUTPUT_FOLDER example_parameters) = Inl e
   | Inr (r, w') \<Rightarrow>
       \<exists>evs. trace w' = trace empty_world @ evs \<and>
         map call_layer (writer_calls evs) =
           filter (\<lambda>layer. lclass layer = QgsVectorLayer) (selectedLayers example_host) \<and>
         (\<forall>c\<in>set (writer_calls evs).
            call_layer c \<in> set (selectedLayers example_host) \<and>
            lclass (call_layer c) = QgsVectorLayer)"
    by (rule processAlgorithm_only_vector_layers)
  then obtain evs where
    t: "example_trace = trace empty_world @ evs" and
    l: "map call_layer (writer_calls evs) =
          filter (\<lambda>layer. lclass layer = QgsVectorLayer) (selectedLayers example_host)"
    unfolding example_run by auto
  from t have "evs = example_trace" by (simp add: empty_world_def)
  with l a have b: "map call_layer (writer_calls example_trace) = [roads, rivers]"
    by simp
  from a example_run b show ?thesis by (intro conjI)
qed

subsection \<open>The messages of the export loop\<close>

text \<open>
  C5: the export loop returns for every list of layers, so no exception leaves it, and it
  pushes one message for each layer, in the order of the layers. The message for a layer
  reports the answer the writer gave for it (on the file system left by the layers before
  it): an info message when the status is \<^verbatim>\<open>NoError\<close>, and otherwise a warning that ends
  with the writer's error message. Whatever the answer, the loop goes on with the next
  layer.
\<close>

theorem export_loop_feedback:
  "\<exists>w' evs. export_loop h f opt ls w = Inr w' \<and> trace w' = trace w @ evs \<and>
     length (feedback evs) = length ls \<and>
     (\<forall>i<length ls. \<exists>base wi.
        (if opt = 0 then Inr (lname (ls ! i)) else get_source_name h (ls ! i)) = Inr base \<and>
        export_loop h f opt (take i ls) w = Inr wi \<and>
        feedback evs ! i =
          (let output_filename = os_path_join h f (base @ ''.shp'');
               error = fst (writeAsVectorFormat h (files wi) (ls ! i) output_filename ''UTF-8''
                              (lcrs (ls ! i)) ''ESRI Shapefile'')
           in if fst error = NoError
              then PushInfo (check_mark @ '' Layer '' @ lname (ls ! i) @ '' exported as ''
                             @ output_filename)
              else PushWarning (cross_mark @ '' Error exporting '' @ lname (ls ! i) @ '': ''
                             @ snd error)))"
proof -
  let ?evs = "loop_events h f opt (files w) ls"
  let ?w' = "w\<lparr>files := loop_files h f opt (files w) ls, trace := trace w @ ?evs\<rparr>"
  have a: "export_loop h f opt ls w = Inr ?w'"
    by (rule export_loop_events)
  have b: "trace ?w' = trace w @ ?evs" by simp
  have c: "length (feedback ?evs) = length ls" by (rule feedback_loop_events_length)
  have d: "\<forall>i<length ls. \<exists>base wi.
        (if opt = 0 then Inr (lname (ls ! i)) else get_source_name h (ls ! i)) = Inr base \<and>
        export_loop h f opt (take i ls) w = Inr wi \<and>
        feedback ?evs ! i =
          (let output_filename = os_path_join h f (base @ ''.shp'');
               error = fst (writeAsVectorFormat h (files wi) (ls ! i) output_filename ''UTF-8''
                              (lcrs (ls ! i)) ''ESRI Shapefile'')
           in if fst error = NoError
              then PushInfo (check_mark @ '' Layer '' @ lname (ls ! i) @ '' exported as ''
                             @ output_filename)
              else PushWarning (cross_mark @ '' Error exporting '' @ lname (ls ! i) @ '': ''
                             @ snd error))"
  proof (intro allI impI)
    fix i assume i: "i < length ls"
    define fs where "fs = loop_files h f opt (files w) (take i ls)"
    define wi where "wi = w\<lparr>files := fs, trace := trace w @ loop_events h f opt (files w) (take i ls)\<rparr>"
    have wi: "export_loop h f opt (take i ls) w = Inr wi"
      unfolding wi_def fs_def by (rule export_loop_events)
    have fwi: "files wi = fs" by (simp add: wi_def)
    from i have m: "feedback ?evs ! i = layer_message h f opt fs (ls ! i)"
      unfolding fs_def by (rule feedback_loop_events_nth)
    from layer_message_base[of opt "ls ! i" h f fs] obtain base where
      base: "(if opt = 0 then Inr (lname (ls ! i)) else get_source_name h (ls ! i)) = Inr base"
      and lm: "layer_message h f opt fs (ls ! i) =
          (let output_filename = os_path_join h f (base @ ''.shp'');
               error = fst (writeAsVectorFormat h fs (ls ! i) output_filename ''UTF-8''
                              (lcrs (ls ! i)) ''ESRI Shapefile'')
           in if fst error = NoError
              then PushInfo (check_mark @ '' Layer '' @ lname (ls ! i) @ '' exported as ''
                             @ output_filename)
              else PushWarning (cross_mark @ '' Error exporting '' @ lname (ls ! i) @ '': ''
                             @ snd error))"
      by blast
    have "feedback ?evs ! i =
          (let output_filename = os_path_join h f (base @ ''.shp'');
               error = fst (writeAsVectorFormat h (files wi) (ls ! i) output_filename ''UTF-8''
                              (lcrs (ls ! i)) ''ESRI Shapefile'')
           in if fst error = NoError
              then PushInfo (check_mark @ '' Layer '' @ lname (ls ! i) @ '' exported as ''
                             @ output_filename)
              else PushWarning (cross_mark @ '' Error exporting '' @ lname (ls ! i) @ '': ''
                             @ snd error))"
      unfolding fwi m lm ..
    with base wi show "\<exists>base wi.
        (if opt = 0 then Inr (lname (ls ! i)) else get_source_name h (ls ! i)) = Inr base \<and>
        export_loop h f opt (take i ls) w = Inr wi \<and>
        feedback ?evs ! i =
          (let output_filename = os_path_join h f (base @ ''.shp'');
               error = fst (writeAsVectorFormat h (files wi) (ls ! i) output_filename ''UTF-8''
                              (lcrs (ls ! i)) ''ESRI Shapefile'')
           in if fst error = NoError
              then PushInfo (check_mark @ '' Layer '' @ lname (ls ! i) @ '' exported as ''
                             @ output_filename)
              else PushWarning (cross_mark @ '' Error exporting '' @ lname (ls ! i) @ '': ''
                             @ snd error))"
      by blast
  qed
  from a b c d show ?thesis by blast
qed

theorem export_loop_feedback_witness:
  "export_loop example_host ''/out'' 1 [roads, rivers] out_world =
     Inr \<lparr>files = {''/out/roads.shp'', ''/out''}, trace = example_loop_trace\<rparr> \<and>
   fst (writeAsVectorFormat example_host {''/out''} roads ''/out/roads.shp'' ''UTF-8''
     ''EPSG:4326'' ''ESRI Shapefile'') = (NoError, []) \<and>
   fst (writeAsVectorFormat example_host {''/out/roads.shp'', ''/out''} rivers
     ''/out/rivers.v2.shp'' ''UTF-8'' ''EPSG:3857'' ''ESRI Shapefile'') =
     (ErrCreateDataSource, ''cannot create file'') \<and>
   length (feedback example_loop_trace) = 2 \<and>
   feedback example_loop_trace =
     [PushInfo (check_mark @ '' Layer Main roads exported as /out/roads.shp''),
      PushWarning (cross_mark @ '' Error exporting Rivers: cannot create file'')]"
proof -
  have a: "fst (writeAsVectorFormat example_host {''/out''} roads ''/out/roads.shp'' ''UTF-8''
     ''EPSG:4326'' ''ESRI Shapefile'') = (NoError, [])"
    "fst (writeAsVectorFormat example_host {''/out/roads.shp'', ''/out''} rivers
     ''/out/rivers.v2.shp'' ''UTF-8'' ''EPSG:3857'' ''ESRI Shapefile'') =
     (ErrCreateDataSource, ''cannot create file'')"
    by (simp_all add: example_host_def example_writer_def roads_def rivers_def)
  from export_loop_feedback[of example_host "''/out''" 1 "[roads, rivers]" out_world]
  obtain w' evs where
    r: "export_loop example_host ''/out'' 1 [roads, rivers] out_world = Inr w'" and
    t: "trace w' = trace out_world @ evs" and
    n: "length (feedback evs) = length [roads, rivers]"
    by blast
  from r have "w' = \<lparr>files = {''/out/roads.shp'', ''/out''}, trace = example_loop_trace\<rparr>"
    unfolding example_loop_run by simp
  with t have "evs = example_loop_trace" by (simp add: out_world_def)
  with n have b: "length (feedback example_loop_trace) = 2" by simp
  have c: "feedback example_loop_trace =
     [PushInfo (check_mark @ '' Layer Main roads exported as /out/roads.shp''),
      PushWarning (cross_mark @ '' Error exporting Rivers: cannot create file'')]"
    by (simp add: example_loop_trace_def)
  from example_loop_run a b c show ?thesis by (intro conjI)
qed

subsection \<open>The output folder\<close>

text \<open>
  C6, as amended. If the output folder exists, the folder step changes nothing: no
  directory is created during the run and no creation message is pushed. If it does not
  exist, \<open>processAlgorithm\<close> calls \<^verbatim>\<open>os.makedirs\<close> on it before anything else: when that
  call returns, the creation and its info message are the first two events of the run,
  before every writer call, and no other directory is created; when it raises, the
  exception leaves \<open>processAlgorithm\<close>. The claim as stated fails in the last case: a
  folder the user may not create does not exist, \<^verbatim>\<open>os.makedirs\<close> raises, and
  \<open>processAlgorithm\<close> ends with the exception instead of creating the folder.
\<close>

theorem processAlgorithm_output_folder:
  "(os_path_exists h (files w) (OUTPUT_FOLDER ps) \<longrightarrow>
      ensure_output_folder h (OUTPUT_FOLDER ps) w = Inr w \<and>
      (\<exists>w' evs. processAlgorithm h ps w = Inr (Map.empty, w') \<and> trace w' = trace w @ evs \<and>
         (\<forall>e\<in>set evs. (\<forall>p. e \<noteq> MakeDirs p) \<and>
            (\<forall>m. e = PushInfo m \<longrightarrow> \<not> startswith m ''Output folder created: '')))) \<and>
   (\<not> os_path_exists h (files w) (OUTPUT_FOLDER ps) \<longrightarrow>
      (\<forall>fs. os_makedirs h (files w) (OUTPUT_FOLDER ps) = Inr fs \<longrightarrow>
         ensure_output_folder h (OUTPUT_FOLDER ps) w =
           Inr (w\<lparr>files := fs,
                  trace := trace w @
                    [MakeDirs (OUTPUT_FOLDER ps),
                     PushInfo (''Output folder created: '' @ OUTPUT_FOLDER ps)]\<rparr>) \<and>
         (\<exists>w' rest. processAlgorithm h ps w = Inr (Map.empty, w') \<and>
            trace w' = trace w @
              MakeDirs (OUTPUT_FOLDER ps) #
              PushInfo (''Output folder created: '' @ OUTPUT_FOLDER ps) # rest \<and>
            (\<forall>e\<in>set rest. \<forall>p. e \<noteq> MakeDirs p))) \<and>
      (\<forall>e. os_makedirs h (files w) (OUTPUT_FOLDER ps) = Inl e \<longrightarrow>
         ensure_output_folder h (OUTPUT_FOLDER ps) w = Inl e \<and>
         processAlgorithm h ps w = Inl e))"
proof -
  let ?f = "OUTPUT_FOLDER ps"
  have exists: "ensure_output_folder h ?f w = Inr w \<and>
      (\<exists>w' evs. processAlgorithm h ps w = Inr (Map.empty, w') \<and> trace w' = trace w @ evs \<and>
         (\<forall>e\<in>set evs. (\<forall>p. e \<noteq> MakeDirs p) \<and>
            (\<forall>m. e = PushInfo m \<longrightarrow> \<not> startswith m ''Output folder created: '')))"
    if ex: "os_path_exists h (files w) ?f"
  proof -
    let ?evs = "selected_events h ?f (FILENAME_BASE ps) (files w)"
    let ?w' = "w\<lparr>files := selected_files h ?f (FILENAME_BASE ps) (files w),
                 trace := trace w @ ?evs\<rparr>"
    have a: "processAlgorithm h ps w = Inr (Map.empty, ?w')"
      using ex by (rule processAlgorithm_exists)
    have b: "trace ?w' = trace w @ ?evs" by simp
    have c: "\<forall>e\<in>set ?evs. (\<forall>p. e \<noteq> MakeDirs p) \<and>
            (\<forall>m. e = PushInfo m \<longrightarrow> \<not> startswith m ''Output folder created: '')"
      using selected_events_no_creation[of _ h ?f "FILENAME_BASE ps" "files w"] by blast
    have d: "ensure_output_folder h ?f w = Inr w"
      using ex by (rule ensure_output_folder_exists)
    from a b c d show ?thesis by blast
  qed
  have created: "ensure_output_folder h ?f w =
           Inr (w\<lparr>files := fs,
                  trace := trace w @
                    [MakeDirs ?f, PushInfo (''Output folder created: '' @ ?f)]\<rparr>) \<and>
         (\<exists>w' rest. processAlgorithm h ps w = Inr (Map.empty, w') \<and>
            trace w' = trace w @
              MakeDirs ?f # PushInfo (''Output folder created: '' @ ?f) # rest \<and>
            (\<forall>e\<in>set rest. \<forall>p. e \<noteq> MakeDirs p))"
    if nex: "\<not> os_path_exists h (files w) ?f" and mk: "os_makedirs h (files w) ?f = Inr fs"
    for fs
  proof -
    let ?rest = "selected_events h ?f (FILENAME_BASE ps) fs"
    let ?w' = "w\<lparr>files := selected_files h ?f (FILENAME_BASE ps) fs,
                 trace := trace w @
                   MakeDirs ?f # PushInfo (''Output folder created: '' @ ?f) # ?rest\<rparr>"
    have a: "processAlgorithm h ps w = Inr (Map.empty, ?w')"
      using nex mk by (rule processAlgorithm_created)
    have b: "trace ?w' = trace w @
        MakeDirs ?f # PushInfo (''Output folder created: '' @ ?f) # ?rest" by simp
    have c: "\<forall>e\<in>set ?rest. \<forall>p. e \<noteq> MakeDirs p"
      using selected_events_no_creation[of _ h ?f "FILENAME_BASE ps" fs] by blast
    have d: "ensure_output_folder h ?f w =
           Inr (w\<lparr>files := fs,
                  trace := trace w @
                    [MakeDirs ?f, PushInfo (''Output folder created: '' @ ?f)]\<rparr>)"
      using nex mk by (rule ensure_output_folder_created)
    from a b c d show ?thesis by blast
  qed
  have raises: "ensure_output_folder h ?f w = Inl e \<and> processAlgorithm h ps w = Inl e"
    if nex: "\<not> os_path_exists h (files w) ?f" and mk: "os_makedirs h (files w) ?f = Inl e"
    for e
    using nex mk ensure_output_folder_raises[OF nex mk] processAlgorithm_raises[OF nex mk]
    by blast
  from exists created raises show ?thesis by blast
qed

theorem processAlgorithm_output_folder_witness:
  "\<not> os_path_exists example_host (files empty_world) (OUTPUT_FOLDER example_parameters) \<and>
   os_makedirs example_host (files empty_world) (OUTPUT_FOLDER example_parameters) =
     Inr {''/out''} \<and>
   ensure_output_folder example_host (OUTPUT_FOLDER example_parameters) empty_world =
     Inr \<lparr>files = {''/out''},
          trace = [MakeDirs ''/out'', PushInfo ''Output folder created: /out'']\<rparr> \<and>
   processAlgorithm example_host example_parameters empty_world =
     Inr (Map.empty, \<lparr>files = {''/out/roads.shp'', ''/out''},
       trace = MakeDirs ''/out'' # PushInfo ''Output folder created: /out'' #
               example_loop_trace\<rparr>) \<and>
   os_path_exists example_host (files out_world) (OUTPUT_FOLDER example_parameters) \<and>
   ensure_output_folder example_host (OUTPUT_FOLDER example_parameters) out_world =
     Inr out_world \<and>
   processAlgorithm example_host example_parameters out_world =
     Inr (Map.empty, \<lparr>files = {''/out/roads.shp'', ''/out''}, trace = example_loop_trace\<rparr>)"
proof -
  note t1 = processAlgorithm_output_folder
    [where h = example_host and w = empty_world and ps = example_parameters]
  note t2 = processAlgorithm_output_folder
    [where h = example_host and w = out_world and ps = example_parameters]
  from t1 example_folder(1) example_folder(2)
  have "ensure_output_folder example_host (OUTPUT_FOLDER example_parameters) empty_world =
     Inr (empty_world\<lparr>files := {''/out''},
            trace := trace empty_world @
              [MakeDirs (OUTPUT_FOLDER example_parameters),
               PushInfo (''Output folder created: '' @ OUTPUT_FOLDER example_parameters)]\<rparr>)"
    by blast
  then have a: "ensure_output_folder example_host (OUTPUT_FOLDER example_parameters) empty_world =
     Inr \<lparr>files = {''/out''},
          trace = [MakeDirs ''/out'', PushInfo ''Output folder created: /out'']\<rparr>"
    by (simp add: empty_world_def example_parameters_def)
  from t2 example_folder(3)
  have b: "ensure_output_folder example_host (OUTPUT_FOLDER example_parameters) out_world =
     Inr out_world"
    by blast
  have c: "processAlgorithm example_host example_parameters empty_world =
     Inr (Map.empty, \<lparr>files = {''/out/roads.shp'', ''/out''},
       trace = MakeDirs ''/out'' # PushInfo ''Output folder created: /out'' #
               example_loop_trace\<rparr>)"
    using example_run by (simp add: example_trace_def)
  from example_folder(1) example_folder(2) a c example_folder(3) b example_run_again
  show ?thesis by (intro conjI)
qed

theorem processAlgorithm_output_folder_counterexample:
  "\<not> os_path_exists example_host (files empty_world) (OUTPUT_FOLDER protected_parameters) \<and>
   ensure_output_folder example_host (OUTPUT_FOLDER protected_parameters) empty_world =
     Inl PermissionError \<and>
   processAlgorithm example_host protected_parameters empty_world = Inl PermissionError"
proof -
  have "ensure_output_folder example_host (OUTPUT_FOLDER protected_parameters) empty_world =
     Inl PermissionError"
    using example_folder(4) example_folder(5) by (rule ensure_output_folder_raises)
  with example_folder(4) example_protected_run show ?thesis by (intro conjI)
qed

subsection \<open>No vector layer selected\<close>

text \<open>
  C8, as amended: when no selected layer is a vector layer and the output folder exists,
  or \<^verbatim>\<open>os.makedirs\<close> creates it without raising, \<open>processAlgorithm\<close> pushes the warning
  and returns \<^verbatim>\<open>{}\<close> without a writer call; a folder that was missing has been created
  before, with its info message. The claim as stated fails when \<^verbatim>\<open>os.makedirs\<close> raises,
  as it does for a folder the user may not create: \<open>processAlgorithm\<close> ends with the
  exception instead of returning \<^verbatim>\<open>{}\<close>.
\<close>

theorem processAlgorithm_no_vector_layers:
  assumes "filter (\<lambda>layer. lclass layer = QgsVectorLayer) (selectedLayers h) = []"
    and "os_path_exists h (files w) (OUTPUT_FOLDER ps) \<or>
         (\<exists>fs. os_makedirs h (files w) (OUTPUT_FOLDER ps) = Inr fs)"
  shows "\<exists>w'. processAlgorithm h ps w = Inr (Map.empty, w') \<and>
     trace w' = trace w @
       (if os_path_exists h (files w) (OUTPUT_FOLDER ps) then []
        else [MakeDirs (OUTPUT_FOLDER ps),
              PushInfo (''Output folder created: '' @ OUTPUT_FOLDER ps)]) @
       [PushWarning ''No vector layers selected for export.''] \<and>
     writer_calls (trace w') = writer_calls (trace w) \<and>
     (if os_path_exists h (files w) (OUTPUT_FOLDER ps) then files w' = files w
      else os_makedirs h (files w) (OUTPUT_FOLDER ps) = Inr (files w'))"
proof -
  let ?f = "OUTPUT_FOLDER ps"
  from assms(1) have sel: "selected_vector_layers h = []"
    by (simp add: selected_vector_layers_def)
  have ev: "selected_events h ?f (FILENAME_BASE ps) fs =
      [PushWarning ''No vector layers selected for export.'']" for fs
    by (simp add: selected_events_def sel)
  have fl: "selected_files h ?f (FILENAME_BASE ps) fs = fs" for fs
    by (simp add: selected_files_def sel)
  show ?thesis
  proof (cases "os_path_exists h (files w) ?f")
    case True
    let ?w' = "w\<lparr>files := files w,
                 trace := trace w @ [PushWarning ''No vector layers selected for export.'']\<rparr>"
    have a: "processAlgorithm h ps w = Inr (Map.empty, ?w')"
      using processAlgorithm_exists[OF True] unfolding ev fl .
    have b: "trace ?w' = trace w @
       (if os_path_exists h (files w) ?f then []
        else [MakeDirs ?f, PushInfo (''Output folder created: '' @ ?f)]) @
       [PushWarning ''No vector layers selected for export.'']"
      using True by simp
    have c: "writer_calls (trace ?w') = writer_calls (trace w)"
      by (simp add: writer_calls_append)
    have d: "if os_path_exists h (files w) ?f then files ?w' = files w
      else os_makedirs h (files w) ?f = Inr (files ?w')"
      using True by simp
    from a b c d show ?thesis by blast
  next
    case False
    with assms(2) obtain fs where mk: "os_makedirs h (files w) ?f = Inr fs" by blast
    let ?w' = "w\<lparr>files := fs,
                 trace := trace w @ MakeDirs ?f # PushInfo (''Output folder created: '' @ ?f) #
                   [PushWarning ''No vector layers selected for export.'']\<rparr>"
    have a: "processAlgorithm h ps w = Inr (Map.empty, ?w')"
      using processAlgorithm_created[OF False mk] unfolding ev fl .
    have b: "trace ?w' = trace w @
       (if os_path_exists h (files w) ?f then []
        else [MakeDirs ?f, PushInfo (''Output folder created: '' @ ?f)]) @
       [PushWarning ''No vector layers selected for export.'']"
      using False by simp
    have c: "writer_calls (trace ?w') = writer_calls (trace w)"
      by (simp add: writer_calls_append)
    have d: "if os_path_exists h (files w) ?f then files ?w' = files w
      else os_makedirs h (files w) ?f = Inr (files ?w')"
      using False mk by simp
    from a b c d show ?thesis by blast
  qed
qed

theorem processAlgorithm_no_vector_layers_witness:
  "filter (\<lambda>layer. lclass layer = QgsVectorLayer) (selectedLayers raster_host) = [] \<and>
   \<not> os_path_exists raster_host (files empty_world) (OUTPUT_FOLDER example_parameters) \<and>
   os_makedirs raster_host (files empty_world) (OUTPUT_FOLDER example_parameters) =
     Inr {''/out''} \<and>
   processAlgorithm raster_host example_parameters empty_world =
     Inr (Map.empty, \<lparr>files = {''/out''},
       trace = [MakeDirs ''/out'', PushInfo ''Output folder created: /out'',
                PushWarning ''No vector layers selected for export.'']\<rparr>)"
proof -
  have "os_path_exists raster_host (files empty_world) (OUTPUT_FOLDER example_parameters) \<or>
      (\<exists>fs. os_makedirs raster_host (files empty_world) (OUTPUT_FOLDER example_parameters) =
         Inr fs)"
    using raster_folder(2) by blast
  from processAlgorithm_no_vector_layers[OF raster_folder(5) this]
  obtain w' where
    r: "processAlgorithm raster_host example_parameters empty_world = Inr (Map.empty, w')" and
    t: "trace w' = trace empty_world @
       (if os_path_exists raster_host (files empty_world) (OUTPUT_FOLDER example_parameters)
        then []
        else [MakeDirs (OUTPUT_FOLDER example_parameters),
              PushInfo (''Output folder created: '' @ OUTPUT_FOLDER example_parameters)]) @
       [PushWarning ''No vector layers selected for export.'']" and
    f: "if os_path_exists raster_host (files empty_world) (OUTPUT_FOLDER example_parameters)
      then files w' = files empty_world
      else os_makedirs raster_host (files empty_world) (OUTPUT_FOLDER example_parameters) =
             Inr (files w')"
    by blast
  from t raster_folder(1) have t': "trace w' =
      [MakeDirs ''/out'', PushInfo ''Output folder created: /out'',
       PushWarning ''No vector layers selected for export.'']"
    by (simp add: empty_world_def example_parameters_def)
  from f raster_folder(1) raster_folder(2) have f': "files w' = {''/out''}" by simp
  from t' f' have "w' = \<lparr>files = {''/out''},
       trace = [MakeDirs ''/out'', PushInfo ''Output folder created: /out'',
                PushWarning ''No vector layers selected for export.'']\<rparr>"
    by (cases w') simp
  with r have c: "processAlgorithm raster_host example_parameters empty_world =
     Inr (Map.empty, \<lparr>files = {''/out''},
       trace = [MakeDirs ''/out'', PushInfo ''Output folder created: /out'',
                PushWarning ''No vector layers selected for export.'']\<rparr>)"
    by (simp only:)
  from raster_folder(5) raster_folder(1) raster_folder(2) c show ?thesis by (intro conjI)
qed

theorem processAlgorithm_no_vector_layers_counterexample:
  "filter (\<lambda>layer. lclass layer = QgsVectorLayer) (selectedLayers raster_host) = [] \<and>
   \<not> os_path_exists raster_host (files empty_world) (OUTPUT_FOLDER protected_parameters) \<and>
   os_makedirs raster_host (files empty_world) (OUTPUT_FOLDER protected_parameters) =
     Inl PermissionError \<and>
   processAlgorithm raster_host protected_parameters empty_world = Inl PermissionError"
  using raster_folder(5) raster_folder(3) raster_folder(4) raster_protected_run
  by (intro conjI)

end
